theory Spec2Isabelle
  imports Complex_Main
begin

section \<open>Dense 3D algebra (the Eigen operations the kernels call)\<close>

text \<open>
  The scalar of \<^verbatim>\<open>SE3\<close> is \<^verbatim>\<open>double\<close>; a coefficient is written here as the \<open>real\<close> it
  denotes, and nothing is said on rounding. A statement that only says which operations
  are applied to which operands does not depend on that. A statement that uses a law of
  arithmetic is made for small integer coefficients only (\<open>small_int\<close> below), where
  every intermediate value is an integer below \<open>2\<^sup>5\<^sup>3\<close> and \<^verbatim>\<open>double\<close> computes it exactly.
  A \<^verbatim>\<open>Vector3d\<close> is three coefficients, a \<^verbatim>\<open>Matrix3d\<close> three rows.
\<close>

datatype Vector3 = Vec3 (vx: real) (vy: real) (vz: real)

datatype Matrix3 = Mat3 (row0: Vector3) (row1: Vector3) (row2: Vector3)

text \<open>\<^verbatim>\<open>a + b\<close> and \<^verbatim>\<open>a - b\<close> on 3-vectors, coefficient by coefficient.\<close>

definition vadd :: "Vector3 \<Rightarrow> Vector3 \<Rightarrow> Vector3" where
  "vadd a b = Vec3 (vx a + vx b) (vy a + vy b) (vz a + vz b)"

definition vsub :: "Vector3 \<Rightarrow> Vector3 \<Rightarrow> Vector3" where
  "vsub a b = Vec3 (vx a - vx b) (vy a - vy b) (vz a - vz b)"

text \<open>\<^verbatim>\<open>a.cross(b)\<close> and \<^verbatim>\<open>a.dot(b)\<close>.\<close>

definition cross :: "Vector3 \<Rightarrow> Vector3 \<Rightarrow> Vector3" where
  "cross a b = Vec3 (vy a * vz b - vz a * vy b)
                    (vz a * vx b - vx a * vz b)
                    (vx a * vy b - vy a * vx b)"

definition dot :: "Vector3 \<Rightarrow> Vector3 \<Rightarrow> real" where
  "dot a b = vx a * vx b + vy a * vy b + vz a * vz b"

text \<open>\<^verbatim>\<open>R * v\<close>, \<^verbatim>\<open>R.transpose()\<close>, \<^verbatim>\<open>A * B\<close> and the identity matrix.\<close>

definition mat_vec :: "Matrix3 \<Rightarrow> Vector3 \<Rightarrow> Vector3" where
  "mat_vec R v = Vec3 (dot (row0 R) v) (dot (row1 R) v) (dot (row2 R) v)"

definition transpose3 :: "Matrix3 \<Rightarrow> Matrix3" where
  "transpose3 R = Mat3 (Vec3 (vx (row0 R)) (vx (row1 R)) (vx (row2 R)))
                       (Vec3 (vy (row0 R)) (vy (row1 R)) (vy (row2 R)))
                       (Vec3 (vz (row0 R)) (vz (row1 R)) (vz (row2 R)))"

definition mat_mul :: "Matrix3 \<Rightarrow> Matrix3 \<Rightarrow> Matrix3" where
  "mat_mul A B = Mat3 (mat_vec (transpose3 B) (row0 A))
                      (mat_vec (transpose3 B) (row1 A))
                      (mat_vec (transpose3 B) (row2 A))"

definition Identity3 :: Matrix3 where
  "Identity3 = Mat3 (Vec3 1 0 0) (Vec3 0 1 0) (Vec3 0 0 1)"

definition Zero3 :: Vector3 where
  "Zero3 = Vec3 0 0 0"






section \<open>Data model\<close>

text \<open>
  \<^verbatim>\<open>SE3\<close>: the rigid transform, read through \<^verbatim>\<open>m.rotation()\<close> and \<^verbatim>\<open>m.translation()\<close>.
  It is taken by const reference; here it is a value that owns its coefficients, held
  outside the matrix storage.
\<close>

record SE3 =
  rotation :: Matrix3
  translation :: Vector3

text \<open>
  The motion argument \<^verbatim>\<open>v\<close> of \<^verbatim>\<open>motionAction\<close>, read through \<^verbatim>\<open>v.linear()\<close> and
  \<^verbatim>\<open>v.angular()\<close>. It is taken by const reference to any motion class; here it is a
  motion that owns its coefficients, held outside the matrix storage. A motion that is
  a view on a column of the matrix storage is not covered.
\<close>

record Motion =
  linear_v :: Vector3
  angular_v :: Vector3

text \<open>
  One column of a 6xN set: \<^verbatim>\<open>head<3>()\<close> is rows 0-2 (the linear part), \<^verbatim>\<open>tail<3>()\<close>
  is rows 3-5 (the angular part).
\<close>

record vec6 =
  head3 :: Vector3
  tail3 :: Vector3

text \<open>
  Matrix storage. A buffer is named by its address; the coefficients of column \<open>c\<close> of
  the buffer at \<open>a\<close> are the cell \<open>(a, c)\<close> of the memory. A matrix expression
  (\<^verbatim>\<open>Eigen::MatrixBase<Mat>\<close>) is a view: the buffer it reads or writes, its run-time
  column count \<^verbatim>\<open>cols()\<close>, and the column count of its type, \<^verbatim>\<open>Mat::ColsAtCompileTime\<close>
  (\<open>-1\<close> is \<^verbatim>\<open>Eigen::Dynamic\<close>). Two views on the same buffer alias. The kernels write
  through fixed-size blocks and cannot resize a view.
\<close>

type_synonym addr = nat

type_synonym vref = "addr \<times> nat"

type_synonym memory = "vref \<Rightarrow> vec6"

record MatrixBase =
  data :: addr
  cols :: nat
  ColsAtCompileTime :: int



datatype error = IndexOutOfRange

text \<open>
  \<^verbatim>\<open>M.col(i)\<close>: the view of column \<open>i\<close>; Eigen asserts \<^verbatim>\<open>i < cols()\<close>.
  A static vector used as a vector is its column 0.
\<close>

definition col :: "MatrixBase \<Rightarrow> nat \<Rightarrow> error + vref" where
  "col M i = (if i < cols M then Inr (data M, i) else Inl IndexOutOfRange)"


text \<open>
  \<^verbatim>\<open>jF.head<3>() = e\<close> and \<^verbatim>\<open>jF.tail<3>() = e\<close>. Every right-hand side in the kernels is
  a matrix-vector product or a cross product, which Eigen evaluates into a temporary
  before it assigns, or a coefficient-wise sum or difference of such temporaries with a
  block that the statement does not write. So a statement evaluates its right-hand side
  on the memory before it, then stores the block. The blocks \<^verbatim>\<open>linear\<close> and \<^verbatim>\<open>angular\<close>
  are views of the input, not copies: each use reads the memory of that moment.
\<close>

definition assign_head :: "vref \<Rightarrow> Vector3 \<Rightarrow> memory \<Rightarrow> memory" where
  "assign_head r e h = h(r := (h r)\<lparr>head3 := e\<rparr>)"

definition assign_tail :: "vref \<Rightarrow> Vector3 \<Rightarrow> memory \<Rightarrow> memory" where
  "assign_tail r e h = h(r := (h r)\<lparr>tail3 := e\<rparr>)"


section \<open>Single-vector kernels\<close>

text \<open>\<^verbatim>\<open>internal::ForceSetSe3Action<Mat,MatRet,1>::run\<close>\<close>

definition ForceSetSe3Action_1_run :: "SE3 \<Rightarrow> vref \<Rightarrow> vref \<Rightarrow> memory \<Rightarrow> memory" where
  "ForceSetSe3Action_1_run m iF jF h0 =
     (let h1 = assign_head jF (mat_vec (rotation m) (head3 (h0 iF))) h0;
          h2 = assign_tail jF (vadd (cross (translation m) (head3 (h1 jF)))
                                    (mat_vec (rotation m) (tail3 (h1 iF)))) h1
      in h2)"

text \<open>\<^verbatim>\<open>internal::ForceSetSe3ActionInverse<Mat,MatRet,1>::run\<close>\<close>

definition ForceSetSe3ActionInverse_1_run :: "SE3 \<Rightarrow> vref \<Rightarrow> vref \<Rightarrow> memory \<Rightarrow> memory" where
  "ForceSetSe3ActionInverse_1_run m iF jF h0 =
     (let h1 = assign_head jF (vsub (tail3 (h0 iF))
                                    (cross (translation m) (head3 (h0 iF)))) h0;
          h2 = assign_tail jF (mat_vec (transpose3 (rotation m)) (head3 (h1 jF))) h1;
          h3 = assign_head jF (mat_vec (transpose3 (rotation m)) (head3 (h2 iF))) h2
      in h3)"

text \<open>\<^verbatim>\<open>internal::MotionSetSe3Action<Mat,MatRet,1>::run\<close>\<close>

definition MotionSetSe3Action_1_run :: "SE3 \<Rightarrow> vref \<Rightarrow> vref \<Rightarrow> memory \<Rightarrow> memory" where
  "MotionSetSe3Action_1_run m iV jV h0 =
     (let h1 = assign_tail jV (mat_vec (rotation m) (tail3 (h0 iV))) h0;
          h2 = assign_head jV (vadd (cross (translation m) (tail3 (h1 jV)))
                                    (mat_vec (rotation m) (head3 (h1 iV)))) h1
      in h2)"

text \<open>\<^verbatim>\<open>internal::MotionSetSe3ActionInverse<Mat,MatRet,1>::run\<close>\<close>

definition MotionSetSe3ActionInverse_1_run :: "SE3 \<Rightarrow> vref \<Rightarrow> vref \<Rightarrow> memory \<Rightarrow> memory" where
  "MotionSetSe3ActionInverse_1_run m iV jV h0 =
     (let h1 = assign_tail jV (vsub (head3 (h0 iV))
                                    (cross (translation m) (tail3 (h0 iV)))) h0;
          h2 = assign_head jV (mat_vec (transpose3 (rotation m)) (tail3 (h1 jV))) h1;
          h3 = assign_tail jV (mat_vec (transpose3 (rotation m)) (tail3 (h2 iV))) h2
      in h3)"

text \<open>
  Modelled from the spec: \<^verbatim>\<open>MotionRef<Mat>::motionAction(v, mout)\<close>, the bracket of the
  motion class, is defined outside this file. The spec gives, for a motion column \<open>X\<close>,
  \<open>dX_ang = v_ang \<times> X_ang\<close> and \<open>dX_lin = v_ang \<times> X_lin + v_lin \<times> X_ang\<close>, with the linear
  part in the head and the angular part in the tail of the column.
\<close>

definition MotionRef_motionAction :: "vec6 \<Rightarrow> Motion \<Rightarrow> vec6" where
  "MotionRef_motionAction X v =
     \<lparr>head3 = vadd (cross (angular_v v) (head3 X)) (cross (linear_v v) (tail3 X)),
      tail3 = cross (angular_v v) (tail3 X)\<rparr>"

text \<open>
  Modelled from the spec: \<^verbatim>\<open>ForceRef<Mat>::motionAction(v, fout)\<close>, the dual bracket of
  the force class, is defined outside this file. The spec gives, for a force column \<open>X\<close>,
  \<open>dX_lin = v_ang \<times> X_lin\<close> and \<open>dX_ang = v_ang \<times> X_ang + v_lin \<times> X_lin\<close>.
\<close>

definition ForceRef_motionAction :: "vec6 \<Rightarrow> Motion \<Rightarrow> vec6" where
  "ForceRef_motionAction X v =
     \<lparr>head3 = cross (angular_v v) (head3 X),
      tail3 = vadd (cross (angular_v v) (tail3 X)) (cross (linear_v v) (head3 X))\<rparr>"

text \<open>
  \<^verbatim>\<open>internal::MotionSetMotionAction<MotionDerived,Mat,MatRet,1>::run\<close> wraps the input
  and the output column in references and calls the bracket of the input on \<open>v\<close>, which
  stores its result in the output.
\<close>

definition MotionSetMotionAction_1_run :: "Motion \<Rightarrow> vref \<Rightarrow> vref \<Rightarrow> memory \<Rightarrow> memory" where
  "MotionSetMotionAction_1_run v iV jV h = h(jV := MotionRef_motionAction (h iV) v)"

text \<open>\<^verbatim>\<open>internal::ForceSetMotionAction<MotionDerived,Mat,MatRet,1>::run\<close>, likewise.\<close>

definition ForceSetMotionAction_1_run :: "Motion \<Rightarrow> vref \<Rightarrow> vref \<Rightarrow> memory \<Rightarrow> memory" where
  "ForceSetMotionAction_1_run v iF jF h = h(jF := ForceRef_motionAction (h iF) v)"


section \<open>Column loops and entry points\<close>

text \<open>
  The six generic \<^verbatim>\<open>run\<close> functions are the same loop around different kernels, written
  once here with the kernel as a parameter:
  \<^verbatim>\<open>for(int col=0;col<jF.cols();++col) { jFc = jF.col(col); op(m,iF.col(col),jFc); }\<close>.
  The call in the body is the entry point on two column expressions, whose
  \<^verbatim>\<open>ColsAtCompileTime\<close> is 1, so it resolves to the single-vector kernel \<open>k\<close>.
  The bound is the column count of the output; \<^verbatim>\<open>iF.col(col)\<close> fails its assertion when
  the input has fewer columns. Column counts are assumed to fit an \<^verbatim>\<open>int\<close>.
\<close>

function colwise ::
  "(vref \<Rightarrow> vref \<Rightarrow> memory \<Rightarrow> memory) \<Rightarrow> MatrixBase \<Rightarrow> MatrixBase \<Rightarrow> nat \<Rightarrow> memory
     \<Rightarrow> error + memory" where
  "colwise k iF jF c h =
     (if c < cols jF then
        (case col jF c of
           Inl e \<Rightarrow> Inl e
         | Inr jFc \<Rightarrow>
            (case col iF c of
               Inl e \<Rightarrow> Inl e
             | Inr iFc \<Rightarrow> colwise k iF jF (c + 1) (k iFc jFc h)))
      else Inr h)"
  by pat_completeness auto
termination
  by (relation "measure (\<lambda>(k, iF, jF, c, h). cols jF - c)") auto

declare colwise.simps [simp del]
















section \<open>The pairing of a force with a motion\<close>



text \<open>A memory that holds the column \<open>c\<close> in every cell.\<close>

definition filled :: "vec6 \<Rightarrow> memory" where
  "filled c = (\<lambda>r. c)"


section \<open>Coefficients that double computes exactly\<close>






section \<open>Footprint of a kernel\<close>





section \<open>Facts of 3D algebra\<close>

lemmas v3_defs =
  vadd_def vsub_def cross_def dot_def mat_vec_def transpose3_def mat_mul_def Identity3_def






lemma cross_self: "cross a a = Zero3"
  by (simp add: cross_def Zero3_def)

lemma cross_swap_cancel: "vadd (cross a b) (cross b a) = Zero3"
  by (simp add: v3_defs Zero3_def)





















section \<open>What the kernels store\<close>

lemmas kernel_defs =
  ForceSetSe3Action_1_run_def ForceSetSe3ActionInverse_1_run_def
  MotionSetSe3Action_1_run_def MotionSetSe3ActionInverse_1_run_def
  MotionSetMotionAction_1_run_def ForceSetMotionAction_1_run_def
  assign_head_def assign_tail_def Let_def

lemma ForceSetSe3Action_1_run_out:
  "ForceSetSe3Action_1_run m iF jF h jF =
     \<lparr>head3 = mat_vec (rotation m) (head3 (h iF)),
      tail3 = vadd (cross (translation m) (mat_vec (rotation m) (head3 (h iF))))
                   (mat_vec (rotation m) (tail3 (h iF)))\<rparr>"
  by (simp add: kernel_defs)

lemma MotionSetSe3Action_1_run_out:
  "MotionSetSe3Action_1_run m iV jV h jV =
     \<lparr>head3 = vadd (cross (translation m) (mat_vec (rotation m) (tail3 (h iV))))
                   (mat_vec (rotation m) (head3 (h iV))),
      tail3 = mat_vec (rotation m) (tail3 (h iV))\<rparr>"
  by (simp add: kernel_defs)

lemma ForceSetSe3ActionInverse_1_run_out:
  "iF \<noteq> jF \<Longrightarrow> ForceSetSe3ActionInverse_1_run m iF jF h jF =
     \<lparr>head3 = mat_vec (transpose3 (rotation m)) (head3 (h iF)),
      tail3 = mat_vec (transpose3 (rotation m))
                (vsub (tail3 (h iF)) (cross (translation m) (head3 (h iF))))\<rparr>"
  by (simp add: kernel_defs)

lemma MotionSetSe3ActionInverse_1_run_out:
  "iV \<noteq> jV \<Longrightarrow> MotionSetSe3ActionInverse_1_run m iV jV h jV =
     \<lparr>head3 = mat_vec (transpose3 (rotation m))
                (vsub (head3 (h iV)) (cross (translation m) (tail3 (h iV)))),
      tail3 = mat_vec (transpose3 (rotation m)) (tail3 (h iV))\<rparr>"
  by (simp add: kernel_defs)

lemma ForceSetSe3ActionInverse_1_run_alias:
  "ForceSetSe3ActionInverse_1_run m r r h r =
     \<lparr>head3 = mat_vec (transpose3 (rotation m))
                (vsub (tail3 (h r)) (cross (translation m) (head3 (h r)))),
      tail3 = mat_vec (transpose3 (rotation m))
                (vsub (tail3 (h r)) (cross (translation m) (head3 (h r))))\<rparr>"
  by (simp add: kernel_defs)

lemma MotionSetSe3ActionInverse_1_run_alias:
  "MotionSetSe3ActionInverse_1_run m r r h r =
     \<lparr>head3 = mat_vec (transpose3 (rotation m))
                (vsub (head3 (h r)) (cross (translation m) (tail3 (h r)))),
      tail3 = mat_vec (transpose3 (rotation m))
                (vsub (head3 (h r)) (cross (translation m) (tail3 (h r))))\<rparr>"
  by (simp add: kernel_defs)

















lemma colwise_step:
  "c < cols jF \<Longrightarrow> c < cols iF \<Longrightarrow>
     colwise k iF jF c h = colwise k iF jF (c + 1) (k (data iF, c) (data jF, c) h)"
  by (subst colwise.simps) (simp add: col_def)

lemma colwise_fail:
  "c < cols jF \<Longrightarrow> \<not> c < cols iF \<Longrightarrow> colwise k iF jF c h = Inl IndexOutOfRange"
  by (subst colwise.simps) (simp add: col_def)


lemma colwise_short:
  "c \<le> cols iF \<Longrightarrow> cols iF < cols jF \<Longrightarrow> colwise k iF jF c h = Inl IndexOutOfRange"
proof (induction k iF jF c h rule: colwise.induct)
  case (1 k iF jF c h)
  show ?case
  proof (cases "c < cols iF")
    case True
    with "1.prems" have cj: "c < cols jF"
      by simp
    have "colwise k iF jF (c + 1) (k (data iF, c) (data jF, c) h) = Inl IndexOutOfRange"
      by (rule "1.IH" [OF cj]) (use True "1.prems" in \<open>simp_all add: col_def\<close>)
    then show ?thesis
      by (simp add: colwise_step [OF cj True])
  next
    case False
    with "1.prems" show ?thesis
      by (simp add: colwise_fail)
  qed
qed



section \<open>The entry points\<close>








section \<open>The single-vector kernels on separate storage\<close>

text \<open>
  Claim C2. For every transform \<open>m = (R, p)\<close> and every motion column \<open>v\<close>, with the
  output column distinct from the input column, the forward motion kernel leaves
  \<open>v'_ang = R v_ang\<close> in the tail (rows 3-5) and \<open>v'_lin = p \<times> v'_ang + R v_lin\<close> in the
  head (rows 0-2) of the output. In particular, for \<open>R\<close> the identity, \<open>p = (1,0,0)\<close>
  and \<open>v = ((0,0,0),(0,0,1))\<close> the output is \<open>((0,-1,0),(0,0,1))\<close>.
\<close>

theorem motionSet_se3Action_result:
  assumes "iV \<noteq> jV"
  shows "MotionSetSe3Action_1_run m iV jV h jV =
           \<lparr>head3 = vadd (cross (translation m) (mat_vec (rotation m) (tail3 (h iV))))
                         (mat_vec (rotation m) (head3 (h iV))),
            tail3 = mat_vec (rotation m) (tail3 (h iV))\<rparr>
         \<and> (rotation m = Identity3 \<and> translation m = Vec3 1 0 0
              \<and> h iV = \<lparr>head3 = Vec3 0 0 0, tail3 = Vec3 0 0 1\<rparr>
            \<longrightarrow> MotionSetSe3Action_1_run m iV jV h jV
                  = \<lparr>head3 = Vec3 0 (- 1) 0, tail3 = Vec3 0 0 1\<rparr>)"
  by (simp add: MotionSetSe3Action_1_run_out v3_defs)

theorem motionSet_se3Action_result_witness:
  "((0::nat, 0::nat) \<noteq> (1, 0))
   \<and> MotionSetSe3Action_1_run \<lparr>rotation = Identity3, translation = Vec3 1 0 0\<rparr> (0, 0) (1, 0)
        (filled \<lparr>head3 = Vec3 0 0 0, tail3 = Vec3 0 0 1\<rparr>) (1, 0)
      = \<lparr>head3 = Vec3 0 (- 1) 0, tail3 = Vec3 0 0 1\<rparr>"
  using motionSet_se3Action_result
          [of "(0, 0)" "(1, 0)" "\<lparr>rotation = Identity3, translation = Vec3 1 0 0\<rparr>"
              "filled \<lparr>head3 = Vec3 0 0 0, tail3 = Vec3 0 0 1\<rparr>"]
  by (simp add: filled_def v3_defs)

text \<open>
  Claim C3. For every transform \<open>m = (R, p)\<close> and every motion column \<open>v\<close>, with the
  output column distinct from the input column, the inverse motion kernel leaves
  \<open>v'_lin = R\<^sup>t (v_lin - p \<times> v_ang)\<close> in the head and \<open>v'_ang = R\<^sup>t v_ang\<close> in the tail of
  the output. It reads only the rotation, transposed, and the translation of \<open>m\<close>: no
  inverse transform is formed.
\<close>

theorem motionSet_se3ActionInverse_result:
  assumes "iV \<noteq> jV"
  shows "MotionSetSe3ActionInverse_1_run m iV jV h jV =
           \<lparr>head3 = mat_vec (transpose3 (rotation m))
                      (vsub (head3 (h iV)) (cross (translation m) (tail3 (h iV)))),
            tail3 = mat_vec (transpose3 (rotation m)) (tail3 (h iV))\<rparr>"
  using assms by (rule MotionSetSe3ActionInverse_1_run_out)

theorem motionSet_se3ActionInverse_result_witness:
  "((0::nat, 0::nat) \<noteq> (1, 0))
   \<and> MotionSetSe3ActionInverse_1_run
        \<lparr>rotation = Mat3 (Vec3 0 (- 1) 0) (Vec3 1 0 0) (Vec3 0 0 1), translation = Vec3 1 2 3\<rparr>
        (0, 0) (1, 0) (filled \<lparr>head3 = Vec3 4 5 6, tail3 = Vec3 7 8 9\<rparr>) (1, 0)
      = \<lparr>head3 = Vec3 (- 7) (- 10) 12, tail3 = Vec3 8 (- 7) 9\<rparr>"
  using motionSet_se3ActionInverse_result
          [of "(0, 0)" "(1, 0)"
              "\<lparr>rotation = Mat3 (Vec3 0 (- 1) 0) (Vec3 1 0 0) (Vec3 0 0 1),
                translation = Vec3 1 2 3\<rparr>"
              "filled \<lparr>head3 = Vec3 4 5 6, tail3 = Vec3 7 8 9\<rparr>"]
  by (simp add: filled_def v3_defs)

text \<open>
  Claim C4. For every transform \<open>m = (R, p)\<close> and every force column \<open>f\<close>, with the
  output column distinct from the input column, the forward force kernel leaves
  \<open>f'_lin = R f_lin\<close> in the head and \<open>f'_ang = p \<times> f'_lin + R f_ang\<close> in the tail of the
  output.
\<close>

theorem forceSet_se3Action_result:
  assumes "iF \<noteq> jF"
  shows "ForceSetSe3Action_1_run m iF jF h jF =
           \<lparr>head3 = mat_vec (rotation m) (head3 (h iF)),
            tail3 = vadd (cross (translation m) (mat_vec (rotation m) (head3 (h iF))))
                         (mat_vec (rotation m) (tail3 (h iF)))\<rparr>"
  by (rule ForceSetSe3Action_1_run_out)

theorem forceSet_se3Action_result_witness:
  "((0::nat, 0::nat) \<noteq> (1, 0))
   \<and> ForceSetSe3Action_1_run
        \<lparr>rotation = Mat3 (Vec3 0 (- 1) 0) (Vec3 1 0 0) (Vec3 0 0 1), translation = Vec3 1 2 3\<rparr>
        (0, 0) (1, 0) (filled \<lparr>head3 = Vec3 4 5 6, tail3 = Vec3 7 8 9\<rparr>) (1, 0)
      = \<lparr>head3 = Vec3 (- 5) 4 6, tail3 = Vec3 (- 8) (- 14) 23\<rparr>"
  using forceSet_se3Action_result
          [of "(0, 0)" "(1, 0)"
              "\<lparr>rotation = Mat3 (Vec3 0 (- 1) 0) (Vec3 1 0 0) (Vec3 0 0 1),
                translation = Vec3 1 2 3\<rparr>"
              "filled \<lparr>head3 = Vec3 4 5 6, tail3 = Vec3 7 8 9\<rparr>"]
  by (simp add: filled_def v3_defs)

text \<open>
  Claim C5. For every transform \<open>m = (R, p)\<close> and every force column \<open>f\<close>, with the
  output column distinct from the input column, the inverse force kernel leaves
  \<open>f'_ang = R\<^sup>t (f_ang - p \<times> f_lin)\<close> in the tail and \<open>f'_lin = R\<^sup>t f_lin\<close> in the head of
  the output.
\<close>

theorem forceSet_se3ActionInverse_result:
  assumes "iF \<noteq> jF"
  shows "ForceSetSe3ActionInverse_1_run m iF jF h jF =
           \<lparr>head3 = mat_vec (transpose3 (rotation m)) (head3 (h iF)),
            tail3 = mat_vec (transpose3 (rotation m))
                      (vsub (tail3 (h iF)) (cross (translation m) (head3 (h iF))))\<rparr>"
  using assms by (rule ForceSetSe3ActionInverse_1_run_out)

theorem forceSet_se3ActionInverse_result_witness:
  "((0::nat, 0::nat) \<noteq> (1, 0))
   \<and> ForceSetSe3ActionInverse_1_run
        \<lparr>rotation = Mat3 (Vec3 0 (- 1) 0) (Vec3 1 0 0) (Vec3 0 0 1), translation = Vec3 1 2 3\<rparr>
        (0, 0) (1, 0) (filled \<lparr>head3 = Vec3 4 5 6, tail3 = Vec3 7 8 9\<rparr>) (1, 0)
      = \<lparr>head3 = Vec3 5 (- 4) 6, tail3 = Vec3 2 (- 10) 12\<rparr>"
  using forceSet_se3ActionInverse_result
          [of "(0, 0)" "(1, 0)"
              "\<lparr>rotation = Mat3 (Vec3 0 (- 1) 0) (Vec3 1 0 0) (Vec3 0 0 1),
                translation = Vec3 1 2 3\<rparr>"
              "filled \<lparr>head3 = Vec3 4 5 6, tail3 = Vec3 7 8 9\<rparr>"]
  by (simp add: filled_def v3_defs)


section \<open>The inverse kernels on their own input\<close>

text \<open>
  Claim C10. When the output column of a single-column inverse kernel is the input
  column itself, both halves of the result are equal, for every transform
  \<open>m = (R, p)\<close>: \<open>R\<^sup>t (v_lin - p \<times> v_ang)\<close> for a motion, \<open>R\<^sup>t (f_ang - p \<times> f_lin)\<close> for a
  force. The kernel keeps its temporary in one half of the output and reads the
  input block it has overwritten afterwards. So the result can differ from the inverse
  action: with the identity transform, the motion \<open>((1,0,0),(0,0,0))\<close> and the force
  \<open>((0,0,0),(1,0,0))\<close> are not left as they are.
\<close>

theorem se3ActionInverse_aliased:
  "MotionSetSe3ActionInverse_1_run m r r h r =
     \<lparr>head3 = mat_vec (transpose3 (rotation m))
                (vsub (head3 (h r)) (cross (translation m) (tail3 (h r)))),
      tail3 = mat_vec (transpose3 (rotation m))
                (vsub (head3 (h r)) (cross (translation m) (tail3 (h r))))\<rparr>
   \<and> ForceSetSe3ActionInverse_1_run m r r h r =
     \<lparr>head3 = mat_vec (transpose3 (rotation m))
                (vsub (tail3 (h r)) (cross (translation m) (head3 (h r)))),
      tail3 = mat_vec (transpose3 (rotation m))
                (vsub (tail3 (h r)) (cross (translation m) (head3 (h r))))\<rparr>
   \<and> MotionSetSe3ActionInverse_1_run \<lparr>rotation = Identity3, translation = Zero3\<rparr> (0, 0) (0, 0)
        (filled \<lparr>head3 = Vec3 1 0 0, tail3 = Zero3\<rparr>) (0, 0)
      \<noteq> \<lparr>head3 = mat_vec (transpose3 Identity3) (vsub (Vec3 1 0 0) (cross Zero3 Zero3)),
          tail3 = mat_vec (transpose3 Identity3) Zero3\<rparr>
   \<and> ForceSetSe3ActionInverse_1_run \<lparr>rotation = Identity3, translation = Zero3\<rparr> (0, 0) (0, 0)
        (filled \<lparr>head3 = Zero3, tail3 = Vec3 1 0 0\<rparr>) (0, 0)
      \<noteq> \<lparr>head3 = mat_vec (transpose3 Identity3) Zero3,
          tail3 = mat_vec (transpose3 Identity3) (vsub (Vec3 1 0 0) (cross Zero3 Zero3))\<rparr>"
  by (simp add: MotionSetSe3ActionInverse_1_run_alias ForceSetSe3ActionInverse_1_run_alias
        filled_def v3_defs Zero3_def)


section \<open>The bracket kernels\<close>

text \<open>
  Claim C8. For every motion \<open>v\<close> and every column \<open>X\<close>, the motion bracket kernel leaves
  \<open>dX_ang = v_ang \<times> X_ang\<close> and \<open>dX_lin = v_ang \<times> X_lin + v_lin \<times> X_ang\<close>, the force bracket
  kernel leaves \<open>dX_lin = v_ang \<times> X_lin\<close> and \<open>dX_ang = v_ang \<times> X_ang + v_lin \<times> X_lin\<close>; and
  the bracket of a motion with itself is zero.
\<close>

theorem motionAction_bracket:
  "MotionSetMotionAction_1_run v iV jV h jV =
     \<lparr>head3 = vadd (cross (angular_v v) (head3 (h iV))) (cross (linear_v v) (tail3 (h iV))),
      tail3 = cross (angular_v v) (tail3 (h iV))\<rparr>
   \<and> ForceSetMotionAction_1_run v iF jF h jF =
     \<lparr>head3 = cross (angular_v v) (head3 (h iF)),
      tail3 = vadd (cross (angular_v v) (tail3 (h iF))) (cross (linear_v v) (head3 (h iF)))\<rparr>
   \<and> (h iV = \<lparr>head3 = linear_v v, tail3 = angular_v v\<rparr>
        \<longrightarrow> MotionSetMotionAction_1_run v iV jV h jV = \<lparr>head3 = Zero3, tail3 = Zero3\<rparr>)"
  by (simp add: kernel_defs MotionRef_motionAction_def ForceRef_motionAction_def
        cross_self cross_swap_cancel)

theorem motionAction_bracket_witness:
  "filled \<lparr>head3 = Vec3 1 2 3, tail3 = Vec3 4 5 6\<rparr> (0, 0)
     = \<lparr>head3 = linear_v \<lparr>linear_v = Vec3 1 2 3, angular_v = Vec3 4 5 6\<rparr>,
        tail3 = angular_v \<lparr>linear_v = Vec3 1 2 3, angular_v = Vec3 4 5 6\<rparr>\<rparr>
   \<and> MotionSetMotionAction_1_run \<lparr>linear_v = Vec3 1 2 3, angular_v = Vec3 4 5 6\<rparr> (0, 0) (1, 0)
        (filled \<lparr>head3 = Vec3 1 2 3, tail3 = Vec3 4 5 6\<rparr>) (1, 0)
      = \<lparr>head3 = Vec3 0 0 0, tail3 = Vec3 0 0 0\<rparr>"
  using motionAction_bracket
          [of "\<lparr>linear_v = Vec3 1 2 3, angular_v = Vec3 4 5 6\<rparr>" "(0, 0)" "(1, 0)"
              "filled \<lparr>head3 = Vec3 1 2 3, tail3 = Vec3 4 5 6\<rparr>" "(0, 0)" "(1, 0)"]
  by (simp add: filled_def Zero3_def v3_defs)

section \<open>Duality of the force and motion actions\<close>





section \<open>Sets of columns\<close>




section \<open>What a call reads and writes\<close>




end
